theory Spec2Isabelle
  imports Main "HOL-Library.Sublist" "HOL-Library.Char_ord" "HOL-Library.List_Lexorder"
    "HOL-Library.Option_ord"
begin

section \<open>Keymap synchronisation (sync-keymaps.py)\<close>

text \<open>
  The script loads two keymap documents, merges the keyboard shortcuts of every action
  into both, and writes both documents back with their actions ordered by id.  The
  embedding follows the script function by function.  Python's \<open>None\<close> is the value
  \<open>None\<close> of an option type, an exception is the \<open>Inl\<close> branch of a sum.
\<close>

subsection \<open>Elements, files and errors\<close>

text \<open>
  An \<open>Element\<close> of \<open>xml.etree.ElementTree\<close>: its tag, its attribute dictionary (in
  insertion order) and its child elements.  An attribute value read from a file is a
  string; the script can also store \<open>None\<close> (the id of an action it creates for the key
  \<open>None\<close>), so a value is a \<open>string option\<close>.  Text between tags is never read or
  written by the script and is not part of the model.
\<close>

datatype element =
  Element (tag: string) (attrib: "(string \<times> string option) list") (children: "element list")

datatype error = OSError | ParseError | AttributeError | TypeError

text \<open>
  A file either is a well-formed XML document, given by its root element, or it is not.
  The document is what \<open>ET.parse\<close> returns for the file: the elements with their
  attributes, in document order (the parser drops comments).  The file system maps a
  path to the file stored there.
\<close>

datatype file_content = NotXml | Xml element

type_synonym filesystem = "string \<rightharpoonup> file_content"

text \<open>\<open>element.get(key)\<close>: the attribute's value, \<open>None\<close> when the attribute is absent.\<close>

definition get :: "element \<Rightarrow> string \<Rightarrow> string option" where
  "get e key = (case map_of (attrib e) key of None \<Rightarrow> None | Some v \<Rightarrow> v)"

text \<open>\<open>element.findall(tag)\<close>: the direct children with that tag, in document order.\<close>

definition findall :: "element \<Rightarrow> string \<Rightarrow> element list" where
  "findall e path = filter (\<lambda>c. tag c = path) (children e)"

text \<open>
  \<open>ET.SubElement(parent, tag, attrib)\<close> appends a new childless element to the parent.
  The model returns the parent after the call; the new element is its last child.
\<close>

definition SubElement :: "element \<Rightarrow> string \<Rightarrow> (string \<times> string option) list \<Rightarrow> element" where
  "SubElement parent t attrs =
     Element (tag parent) (attrib parent) (children parent @ [Element t attrs []])"

subsection \<open>load_keymap and save_keymap\<close>

definition load_keymap :: "filesystem \<Rightarrow> string \<Rightarrow> error + element" where
  "load_keymap fs file_path =
     (case fs file_path of
        None \<Rightarrow> Inl OSError
      | Some NotXml \<Rightarrow> Inl ParseError
      | Some (Xml root) \<Rightarrow> Inr root)"

text \<open>
  \<open>sorted(root.findall('action'), key=lambda a: a.get('id'))\<close>.  Python's sort is stable
  and compares strings by code point.  As soon as the list has two elements every key
  takes part in a comparison, and a comparison with \<open>None\<close> raises \<open>TypeError\<close>.
\<close>

definition sorted_actions :: "element \<Rightarrow> error + element list" where
  "sorted_actions root =
     (let actions = findall root ''action'' in
      if 2 \<le> length actions \<and> (\<exists>a \<in> set actions. get a ''id'' = None) then Inl TypeError
      else Inr (sort_key (\<lambda>a. get a ''id'') actions))"

text \<open>\<open>ET.tostring\<close> raises \<open>TypeError\<close> on an attribute whose value is \<open>None\<close>.\<close>

fun serializable :: "element \<Rightarrow> bool" where
  "serializable (Element t attrs cs) =
     ((\<forall>kv \<in> set attrs. snd kv \<noteq> None) \<and> (\<forall>c \<in> set cs. serializable c))"

text \<open>
  \<open>save_keymap\<close> removes all children of the root, appends the sorted actions, and writes
  the pretty-printed document over the file.  The written file is given by the document
  it holds; the sort and the serialisation come first, so a \<open>TypeError\<close> leaves the file
  as it was.  Opening the file for writing is taken to succeed.
\<close>

definition save_keymap :: "element \<Rightarrow> string \<Rightarrow> filesystem \<Rightarrow> (error + unit) \<times> filesystem" where
  "save_keymap root file_path fs =
     (case sorted_actions root of
        Inl e \<Rightarrow> (Inl e, fs)
      | Inr actions \<Rightarrow>
          (let root' = Element (tag root) (attrib root) actions in
           if serializable root' then (Inr (), fs(file_path \<mapsto> Xml root'))
           else (Inl TypeError, fs)))"

subsection \<open>convert_shortcut\<close>

text \<open>
  \<open>str.replace(old, new)\<close>: every occurrence of \<open>old\<close>, found from left to right without
  overlap, is replaced by \<open>new\<close>; an empty \<open>old\<close> matches before every character and at
  the end.
\<close>

fun str_replace :: "string \<Rightarrow> string \<Rightarrow> string \<Rightarrow> string" where
  "str_replace old new [] = (if old = [] then new else [])"
| "str_replace old new (c # cs) =
     (if old = [] then new @ c # str_replace old new cs
      else if prefix old (c # cs) then new @ str_replace old new (drop (length old) (c # cs))
      else c # str_replace old new cs)"

definition convert_shortcut :: "string \<Rightarrow> bool \<Rightarrow> string" where
  "convert_shortcut shortcut to_mac =
     (if to_mac then str_replace ''ctrl'' ''meta'' shortcut
      else str_replace ''meta'' ''ctrl'' shortcut)"

subsection \<open>sync_keymaps\<close>

text \<open>
  The dictionary \<open>{action.get('id'): action for action in root.findall('action')}\<close>.
  An entry refers to an element object of the tree; the model refers to it by its
  position among the children of the root, which never changes because the script only
  appends children.  A later action with the same id overwrites the entry.
\<close>

definition action_dict :: "element \<Rightarrow> (string option \<rightharpoonup> nat)" where
  "action_dict root =
     foldl (\<lambda>d (i, a). if tag a = ''action'' then d(get a ''id'' \<mapsto> i) else d)
       Map.empty (enumerate 0 (children root))"

text \<open>The keys of that dictionary, as they are inserted.\<close>

definition action_keys :: "element \<Rightarrow> string option list" where
  "action_keys root = map (\<lambda>a. get a ''id'') (findall root ''action'')"

text \<open>\<open>{s.get('first-keystroke') for s in action.findall('keyboard-shortcut')}\<close>\<close>

definition keystrokes :: "element \<Rightarrow> string option list" where
  "keystrokes action =
     map (\<lambda>s. get s ''first-keystroke'') (findall action ''keyboard-shortcut'')"


text \<open>
  The set comprehension \<open>{convert_shortcut(s, to_mac=...) for s in shortcuts}\<close>.  On
  \<open>None\<close> the call \<open>shortcut.replace\<close> raises \<open>AttributeError\<close>.
\<close>

fun convert_set :: "string option list \<Rightarrow> bool \<Rightarrow> error + string option list" where
  "convert_set [] to_mac = Inr []"
| "convert_set (None # ss) to_mac = Inl AttributeError"
| "convert_set (Some s # ss) to_mac =
     (case convert_set ss to_mac of
        Inl e \<Rightarrow> Inl e
      | Inr cs \<Rightarrow> Inr (Some (convert_shortcut s to_mac) # cs))"

text \<open>
  The inner function \<open>add_shortcuts\<close>: the existing keystrokes are read once, then every
  keystroke of the set that is not among them gets a new \<open>keyboard-shortcut\<close> child.
\<close>

definition add_shortcuts ::
  "(string option list \<Rightarrow> string option list) \<Rightarrow> element \<Rightarrow> string option list \<Rightarrow> element" where
  "add_shortcuts iter action shortcuts =
     (let existing_shortcuts = set (keystrokes action) in
      foldl (\<lambda>act keystroke.
               if keystroke \<notin> existing_shortcuts
               then SubElement act ''keyboard-shortcut'' [(''first-keystroke'', keystroke)]
               else act)
        action (iter shortcuts))"

text \<open>Replacing the child at a position by its updated version (mutation in place).\<close>

definition set_child :: "element \<Rightarrow> nat \<Rightarrow> element \<Rightarrow> element" where
  "set_child root i c = Element (tag root) (attrib root) ((children root)[i := c])"

text \<open>
  \<open>dict.get(action_id)\<close> followed by the creation of the action when it is missing:
  the root after the step and the position of the action in it.
\<close>

definition get_or_create ::
  "(string option \<rightharpoonup> nat) \<Rightarrow> string option \<Rightarrow> element \<Rightarrow> element \<times> nat" where
  "get_or_create actions action_id root =
     (case actions action_id of
        Some i \<Rightarrow> (root, i)
      | None \<Rightarrow> (SubElement root ''action'' [(''id'', action_id)], length (children root)))"

text \<open>
  The body of the loop over \<open>all_action_ids\<close>, on the pair of roots.  The positions
  \<open>wi\<close> and \<open>mi\<close> are those of existing children (lemma \<open>get_or_create_props\<close>).  The
  Mac shortcuts are converted first, as in the script; either conversion raises
  \<open>AttributeError\<close> on a shortcut without \<open>first-keystroke\<close>.
\<close>

definition sync_action ::
  "(string option list \<Rightarrow> string option list) \<Rightarrow> (string option \<rightharpoonup> nat) \<Rightarrow>
   (string option \<rightharpoonup> nat) \<Rightarrow> string option \<Rightarrow> element \<times> element \<Rightarrow> error + element \<times> element" where
  "sync_action iter windows_actions mac_actions action_id roots =
     (let (windows_root, wi) = get_or_create windows_actions action_id (fst roots);
          (mac_root, mi) = get_or_create mac_actions action_id (snd roots);
          windows_action = children windows_root ! wi;
          mac_action = children mac_root ! mi;
          windows_shortcuts = keystrokes windows_action;
          mac_shortcuts = keystrokes mac_action
      in case convert_set mac_shortcuts False of
           Inl e \<Rightarrow> Inl e
         | Inr mac_converted \<Rightarrow>
             (case convert_set windows_shortcuts True of
                Inl e \<Rightarrow> Inl e
              | Inr windows_converted \<Rightarrow>
                  Inr (set_child windows_root wi
                         (add_shortcuts iter windows_action (windows_shortcuts @ mac_converted)),
                       set_child mac_root mi
                         (add_shortcuts iter mac_action (mac_shortcuts @ windows_converted)))))"

text \<open>The loop \<open>for action_id in all_action_ids\<close>; an exception ends it.\<close>

fun sync_loop ::
  "(string option list \<Rightarrow> string option list) \<Rightarrow> (string option \<rightharpoonup> nat) \<Rightarrow>
   (string option \<rightharpoonup> nat) \<Rightarrow> string option list \<Rightarrow> element \<times> element \<Rightarrow> error + element \<times> element" where
  "sync_loop iter windows_actions mac_actions [] roots = Inr roots"
| "sync_loop iter windows_actions mac_actions (action_id # ids) roots =
     (case sync_action iter windows_actions mac_actions action_id roots of
        Inl e \<Rightarrow> Inl e
      | Inr roots' \<Rightarrow> sync_loop iter windows_actions mac_actions ids roots')"

text \<open>The merge of the two loaded roots: lines 89 to 129 of the script.\<close>

definition merge_roots ::
  "(string option list \<Rightarrow> string option list) \<Rightarrow> element \<Rightarrow> element \<Rightarrow> error + element \<times> element" where
  "merge_roots iter windows_root mac_root =
     (let windows_actions = action_dict windows_root;
          mac_actions = action_dict mac_root;
          all_action_ids = iter (action_keys windows_root @ action_keys mac_root)
      in sync_loop iter windows_actions mac_actions all_action_ids (windows_root, mac_root))"

text \<open>
  \<open>sync_keymaps\<close>: both files are loaded, the roots are merged, the Windows document is
  saved and then the Mac document.  The result is the exception, if any, and the file
  system after the run.
\<close>

definition sync_keymaps ::
  "(string option list \<Rightarrow> string option list) \<Rightarrow> string \<Rightarrow> string \<Rightarrow> filesystem \<Rightarrow>
   (error + unit) \<times> filesystem" where
  "sync_keymaps iter windows_file mac_file fs =
     (case load_keymap fs windows_file of
        Inl e \<Rightarrow> (Inl e, fs)
      | Inr windows_root \<Rightarrow>
          (case load_keymap fs mac_file of
             Inl e \<Rightarrow> (Inl e, fs)
           | Inr mac_root \<Rightarrow>
               (case merge_roots iter windows_root mac_root of
                  Inl e \<Rightarrow> (Inl e, fs)
                | Inr (windows_root', mac_root') \<Rightarrow>
                    (case save_keymap windows_root' windows_file fs of
                       (Inl e, fs') \<Rightarrow> (Inl e, fs')
                     | (Inr u, fs') \<Rightarrow> save_keymap mac_root' mac_file fs'))))"

subsection \<open>Notions used to state the properties\<close>













text \<open>A keystroke set converted element by element.\<close>

definition translate :: "bool \<Rightarrow> string option list \<Rightarrow> string option list" where
  "translate to_mac ks = map (map_option (\<lambda>s. convert_shortcut s to_mac)) ks"


text \<open>
  The document \<open>save_keymap\<close> writes for a root, and the condition under which sorting
  its actions raises no \<open>TypeError\<close>.
\<close>

definition saved :: "element \<Rightarrow> element" where
  "saved root =
     Element (tag root) (attrib root) (sort_key (\<lambda>a. get a ''id'') (findall root ''action''))"

definition sortable :: "element \<Rightarrow> bool" where
  "sortable root =
     (\<not> (2 \<le> length (findall root ''action'') \<and>
         (\<exists>a \<in> set (findall root ''action''). get a ''id'' = None)))"

subsection \<open>Example documents\<close>

text \<open>
  The two file names of the script, and small documents used to instantiate the theorems:
  the action \<open>paste\<close> on both sides, the action \<open>copy\<close> on the Windows side only.
\<close>

definition windows_keymap :: string where
  "windows_keymap = ''Windows - Fraser.xml''"

definition mac_keymap :: string where
  "mac_keymap = ''macOS - Fraser.xml''"

definition shortcut :: "string \<Rightarrow> element" where
  "shortcut s = Element ''keyboard-shortcut'' [(''first-keystroke'', Some s)] []"

definition action :: "string \<Rightarrow> string list \<Rightarrow> element" where
  "action action_id ss = Element ''action'' [(''id'', Some action_id)] (map shortcut ss)"

definition example_windows :: element where
  "example_windows =
     Element ''keymap'' [(''version'', Some ''1'')]
       [action ''paste'' [''ctrl+v''], action ''copy'' [''ctrl+c'']]"

definition example_mac :: element where
  "example_mac = Element ''keymap'' [(''version'', Some ''1'')] [action ''paste'' [''meta+shift+v'']]"

definition example_fs :: filesystem where
  "example_fs = [windows_keymap \<mapsto> Xml example_windows, mac_keymap \<mapsto> Xml example_mac]"






section \<open>Properties of convert_shortcut\<close>

lemma str_replace_hit:
  "old \<noteq> [] \<Longrightarrow> str_replace old new (old @ r) = new @ str_replace old new r"
  by (cases old) simp_all

lemma str_replace_miss:
  "old \<noteq> [] \<Longrightarrow> \<not> prefix old (c # cs) \<Longrightarrow>
   str_replace old new (c # cs) = c # str_replace old new cs"
  by simp

lemma prefix_str_replace:
  assumes "old \<noteq> []" and "new \<noteq> []" and "hd new \<notin> set p"
    and "prefix p (str_replace old new t)"
  shows "prefix p t"
  using assms(3,4)
proof (induction p arbitrary: t)
  case Nil
  then show ?case by simp
next
  case (Cons x p)
  show ?case
  proof (cases t)
    case Nil
    with Cons.prems assms(1) show ?thesis by simp
  next
    case t: (Cons c cs)
    show ?thesis
    proof (cases "prefix old t")
      case True
      then obtain r where "t = old @ r" by (auto simp: prefix_def)
      then have "str_replace old new t = new @ str_replace old new r"
        using assms(1) by (simp add: str_replace_hit del: str_replace.simps)
      with Cons.prems(2) assms(2) have "x = hd new"
        by (cases new) simp_all
      with Cons.prems(1) show ?thesis by simp
    next
      case False
      then have "str_replace old new t = c # str_replace old new cs"
        unfolding t using assms(1) by (rule str_replace_miss [rotated])
      with Cons.prems(2) have "x = c" and "prefix p (str_replace old new cs)"
        by simp_all
      moreover have "hd new \<notin> set p" using Cons.prems(1) by simp
      ultimately show ?thesis using Cons.IH [of cs] t by simp
    qed
  qed
qed

lemma str_replace_round_trip:
  assumes "old \<noteq> []" and "new \<noteq> []" and "hd new \<notin> set (tl new)"
    and "\<not> sublist new s"
  shows "str_replace new old (str_replace old new s) = s"
  using assms(4)
proof (induction s rule: length_induct)
  case (1 s)
  show ?case
  proof (cases s)
    case Nil
    with assms(1,2) show ?thesis by simp
  next
    case s: (Cons c cs)
    show ?thesis
    proof (cases "prefix old s")
      case True
      then obtain r where r: "s = old @ r" by (auto simp: prefix_def)
      have "\<not> sublist new r"
        using "1.prems" unfolding r sublist_append by blast
      moreover have "length r < length s" using r assms(1) by simp
      ultimately have "str_replace new old (str_replace old new r) = r"
        using "1.IH" by blast
      then show ?thesis
        unfolding r using assms(1,2) by (simp add: str_replace_hit del: str_replace.simps)
    next
      case False
      have step: "str_replace old new s = c # str_replace old new cs"
        unfolding s using assms(1) False [unfolded s] by (rule str_replace_miss)
      have nm: "\<not> prefix new (c # str_replace old new cs)"
      proof
        assume p: "prefix new (c # str_replace old new cs)"
        from p assms(2) have c: "c = hd new" by (cases new) auto
        from p assms(2) have "prefix (tl new) (str_replace old new cs)" by (cases new) auto
        with assms(3) have "prefix (tl new) cs"
          using prefix_str_replace [OF assms(1,2)] by blast
        with c assms(2) have "prefix new s" unfolding s by (cases new) auto
        with "1.prems" show False using prefix_imp_sublist by blast
      qed
      have "\<not> sublist new cs"
        using "1.prems" unfolding s sublist_Cons_right by blast
      moreover have "length cs < length s" using s by simp
      ultimately have ih: "str_replace new old (str_replace old new cs) = cs"
        using "1.IH" by blast
      have "str_replace new old (str_replace old new s) =
          str_replace new old (c # str_replace old new cs)"
        by (simp only: step)
      also have "\<dots> = c # str_replace new old (str_replace old new cs)"
        by (rule str_replace_miss [OF assms(2) nm])
      also have "\<dots> = s"
        by (simp only: ih s)
      finally show ?thesis .
    qed
  qed
qed

text \<open>
  Claim C4.  A keystroke string that contains no occurrence of \<open>meta\<close> is unchanged by
  converting it to the Mac convention and back: \<open>convert_shortcut(convert_shortcut(s,
  to_mac=True), to_mac=False) == s\<close>.
\<close>

theorem convert_shortcut_round_trip:
  "\<not> sublist ''meta'' s \<Longrightarrow> convert_shortcut (convert_shortcut s True) False = s"
  unfolding convert_shortcut_def
  using str_replace_round_trip [of "''ctrl''" "''meta''" s] by simp

theorem convert_shortcut_round_trip_witness:
  "\<not> sublist ''meta'' ''ctrl+shift+a'' \<and>
   convert_shortcut (convert_shortcut ''ctrl+shift+a'' True) False = ''ctrl+shift+a''"
proof -
  have h: "\<not> sublist ''meta'' ''ctrl+shift+a''" by code_simp
  show ?thesis using h convert_shortcut_round_trip [OF h] by simp
qed

section \<open>Properties of add_shortcuts\<close>














section \<open>The id dictionary\<close>













section \<open>One step of the merge loop\<close>

lemma convert_set_Inl:
  "convert_set xs b = Inl e \<longleftrightarrow> None \<in> set xs \<and> e = AttributeError"
proof (induction xs)
  case Nil
  then show ?case by simp
next
  case (Cons x xs)
  then show ?case
    by (cases x) (auto split: sum.splits)
qed

lemma convert_set_total:
  "None \<notin> set xs \<Longrightarrow> convert_set xs b = Inr (translate b xs)"
proof (induction xs)
  case Nil
  then show ?case by (simp add: translate_def)
next
  case (Cons x xs)
  then show ?case
    by (cases x) (auto simp: translate_def)
qed

lemma convert_set_Inr:
  "convert_set xs b = Inr ys \<longleftrightarrow> None \<notin> set xs \<and> ys = translate b xs"
proof (cases "None \<in> set xs")
  case True
  then have "convert_set xs b = Inl AttributeError" by (simp add: convert_set_Inl)
  with True show ?thesis by simp
next
  case False
  then show ?thesis by (auto simp: convert_set_total)
qed












section \<open>The merge loop\<close>








section \<open>Saving and the whole run\<close>

lemma save_keymap_cases:
  "save_keymap root p fs =
     (if sortable root \<and> serializable (saved root) then (Inr (), fs(p \<mapsto> Xml (saved root)))
      else (Inl TypeError, fs))"
  by (auto simp: save_keymap_def sorted_actions_def saved_def sortable_def Let_def)

lemma save_keymap_Inr:
  "save_keymap root p fs = (Inr (), fs') \<longleftrightarrow>
     sortable root \<and> serializable (saved root) \<and> fs' = fs(p \<mapsto> Xml (saved root))"
  by (auto simp: save_keymap_cases)


lemma children_saved:
  "children (saved root) = sort_key (\<lambda>a. get a ''id'') (findall root ''action'')"
  by (simp add: saved_def)








lemma load_keymap_Inr: "load_keymap fs p = Inr r \<longleftrightarrow> fs p = Some (Xml r)"
  by (auto simp: load_keymap_def split: option.splits file_content.splits)



section \<open>What a successful run has done\<close>












section \<open>Steps that add nothing\<close>











section \<open>Properties of the script\<close>






text \<open>
  Claim C8.  If loading either input file fails (the file is missing, unreadable or not
  well-formed XML), \<open>sync_keymaps\<close> stops with that error and the file system is as it
  was: neither file has been written, not even partly.
\<close>

theorem load_failure_leaves_files:
  assumes "(\<exists>e. load_keymap fs windows_file = Inl e) \<or> (\<exists>e. load_keymap fs mac_file = Inl e)"
  shows "\<exists>e. sync_keymaps iter windows_file mac_file fs = (Inl e, fs)"
  using assms
  by (cases "load_keymap fs windows_file"; cases "load_keymap fs mac_file")
     (auto simp: sync_keymaps_def)

theorem load_failure_leaves_files_witness:
  "(\<exists>e. load_keymap (example_fs(mac_keymap \<mapsto> NotXml)) mac_keymap = Inl e) \<and>
   (\<exists>e. sync_keymaps remdups windows_keymap mac_keymap (example_fs(mac_keymap \<mapsto> NotXml)) =
         (Inl e, example_fs(mac_keymap \<mapsto> NotXml)))"
proof -
  have h: "\<exists>e. load_keymap (example_fs(mac_keymap \<mapsto> NotXml)) mac_keymap = Inl e"
    by (simp add: load_keymap_def)
  then have "(\<exists>e. load_keymap (example_fs(mac_keymap \<mapsto> NotXml)) windows_keymap = Inl e) \<or>
      (\<exists>e. load_keymap (example_fs(mac_keymap \<mapsto> NotXml)) mac_keymap = Inl e)"
    by blast
  from load_failure_leaves_files [OF this] h show ?thesis by blast
qed



text \<open>
  Claim C10.  \<open>save_keymap\<close> drops every direct child of the root that is not an action:
  the written document has action children only, no other child of the root is among
  them, and the outcome is the one obtained for the root without those children.
\<close>

theorem save_keymap_drops_other_children:
  assumes "save_keymap root file_path fs = (Inr (), fs')"
  shows "\<exists>root'. fs' file_path = Some (Xml root') \<and>
     (\<forall>c \<in> set (children root'). tag c = ''action'') \<and>
     (\<forall>c \<in> set (children root). tag c \<noteq> ''action'' \<longrightarrow> c \<notin> set (children root')) \<and>
     save_keymap (Element (tag root) (attrib root) (findall root ''action'')) file_path fs =
       (Inr (), fs')"
proof -
  let ?r = "Element (tag root) (attrib root) (findall root ''action'')"
  from assms have s: "sortable root" and z: "serializable (saved root)"
    and fs': "fs' = fs(file_path \<mapsto> Xml (saved root))"
    by (simp_all add: save_keymap_Inr)
  have f: "findall ?r ''action'' = findall root ''action''" by (simp add: findall_def)
  then have "saved ?r = saved root" "sortable ?r = sortable root"
    by (simp_all add: saved_def sortable_def)
  with s z fs' have "save_keymap ?r file_path fs = (Inr (), fs')"
    by (simp add: save_keymap_Inr)
  moreover have "\<forall>c \<in> set (children (saved root)). tag c = ''action''"
    by (simp add: children_saved findall_def)
  moreover have "\<forall>c \<in> set (children root). tag c \<noteq> ''action'' \<longrightarrow> c \<notin> set (children (saved root))"
    by (simp add: children_saved findall_def)
  moreover have "fs' file_path = Some (Xml (saved root))" using fs' by simp
  ultimately show ?thesis by blast
qed

theorem save_keymap_drops_other_children_witness:
  "save_keymap (Element ''keymap'' [] [Element ''group'' [] [action ''x'' []], action ''copy'' []])
     windows_keymap Map.empty =
     (Inr (), [windows_keymap \<mapsto> Xml (Element ''keymap'' [] [action ''copy'' []])]) \<and>
   (\<exists>root'. [windows_keymap \<mapsto> Xml (Element ''keymap'' [] [action ''copy'' []])] windows_keymap =
        Some (Xml root') \<and>
      (\<forall>c \<in> set (children root'). tag c = ''action'') \<and>
      Element ''group'' [] [action ''x'' []] \<notin> set (children root'))"
proof -
  let ?root = "Element ''keymap'' [] [Element ''group'' [] [action ''x'' []], action ''copy'' []]"
  have h: "save_keymap ?root windows_keymap Map.empty =
     (Inr (), [windows_keymap \<mapsto> Xml (Element ''keymap'' [] [action ''copy'' []])])"
    by (simp add: save_keymap_def sorted_actions_def findall_def action_def get_def)
  from save_keymap_drops_other_children [OF h] obtain root' where
    r: "[windows_keymap \<mapsto> Xml (Element ''keymap'' [] [action ''copy'' []])] windows_keymap =
        Some (Xml root')"
      "\<forall>c \<in> set (children root'). tag c = ''action''"
      "\<forall>c \<in> set (children ?root). tag c \<noteq> ''action'' \<longrightarrow> c \<notin> set (children root')"
    by blast
  from r(3) have "Element ''group'' [] [action ''x'' []] \<notin> set (children root')" by simp
  with h r(1,2) show ?thesis by blast
qed
























end
